theory Spec2Isabelle
  imports Main
begin

unbundle bit_operations_syntax

section \<open>The J1939 identifier codec of \<^verbatim>\<open>src/main.py\<close>\<close>

text \<open>
  Python integers are unbounded, so every value is an \<^typ>\<open>int\<close>.  On \<^typ>\<open>int\<close> the
  operations \<^term>\<open>drop_bit\<close>, \<^term>\<open>push_bit\<close>, \<open>AND\<close> and \<open>OR\<close> are the two's-complement
  ones of Python's \<^verbatim>\<open>>>\<close>, \<^verbatim>\<open><<\<close>, \<^verbatim>\<open>&\<close> and \<^verbatim>\<open>|\<close>: a right shift of a negative number
  rounds towards minus infinity, and a mask of a negative number is non-negative.
  The call \<^verbatim>\<open>int(x)\<close> on an integer is the identity and is left out.
  Where \<^verbatim>\<open>build_j1939_id\<close> rebinds a parameter to its masked value, the parameter as
  passed carries the suffix \<open>0\<close>; the two assignments to \<^verbatim>\<open>can_id\<close> are two bindings.

  The dictionary that \<^verbatim>\<open>parse_j1939_id\<close> returns is a finite map from its string keys
  to integers; reading a key that is absent (a \<^verbatim>\<open>KeyError\<close>) is \<^term>\<open>None\<close>.
\<close>

type_synonym components = "string \<rightharpoonup> int"

definition parse_j1939_id :: "int \<Rightarrow> components" where
  "parse_j1939_id can_id =
    (let priority = drop_bit 26 can_id AND 0x7;
         reserved = drop_bit 25 can_id AND 0x1;
         data_page = drop_bit 24 can_id AND 0x1;
         pdu_format = drop_bit 16 can_id AND 0xFF;
         pdu_specific = drop_bit 8 can_id AND 0xFF;
         source_address = can_id AND 0xFF;
         pgn = (if pdu_format < 240
                then push_bit 16 data_page OR push_bit 8 pdu_format
                else (push_bit 16 data_page OR push_bit 8 pdu_format) OR pdu_specific)
     in [''priority'' \<mapsto> priority,
         ''reserved'' \<mapsto> reserved,
         ''data_page'' \<mapsto> data_page,
         ''pdu_format'' \<mapsto> pdu_format,
         ''pdu_specific'' \<mapsto> pdu_specific,
         ''source_address'' \<mapsto> source_address,
         ''pgn'' \<mapsto> pgn])"

definition build_j1939_id :: "int \<Rightarrow> int \<Rightarrow> int \<Rightarrow> int \<Rightarrow> int" where
  "build_j1939_id priority0 pgn source_address0 reserved0 =
    (let priority = priority0 AND 0x7;
         reserved = reserved0 AND 0x1;
         source_address = source_address0 AND 0xFF;
         data_page = drop_bit 16 pgn AND 0x1;
         pdu_format = drop_bit 8 pgn AND 0xFF;
         pdu_specific = pgn AND 0xFF;
         can_id = ((push_bit 26 priority OR push_bit 25 reserved) OR push_bit 24 data_page)
                    OR push_bit 16 pdu_format;
         can_id = can_id OR (push_bit 8 pdu_specific OR source_address)
     in can_id)"

section \<open>Masks as truncations\<close>

lemma and_7_take_bit: "(k::int) AND 7 = take_bit 3 k"
  by (simp add: take_bit_eq_mask mask_eq_exp_minus_1)

lemma and_1_take_bit: "(k::int) AND 1 = take_bit 1 k"
  by (simp add: take_bit_eq_mask mask_eq_exp_minus_1)

lemma and_255_take_bit: "(k::int) AND 255 = take_bit 8 k"
  by (simp add: take_bit_eq_mask mask_eq_exp_minus_1)

lemmas mask_take_bit = and_7_take_bit and_1_take_bit and_255_take_bit

section \<open>Bits of the masked and shifted fields\<close>

lemma bit_and_7: "bit ((x::int) AND 7) n \<longleftrightarrow> n < 3 \<and> bit x n"
  unfolding and_7_take_bit by (simp only: bit_take_bit_iff)

lemma bit_and_1: "bit ((x::int) AND 1) n \<longleftrightarrow> n < 1 \<and> bit x n"
  unfolding and_1_take_bit by (simp only: bit_take_bit_iff)

lemma bit_and_255: "bit ((x::int) AND 255) n \<longleftrightarrow> n < 8 \<and> bit x n"
  unfolding and_255_take_bit by (simp only: bit_take_bit_iff)

lemma bit_push_int: "bit (push_bit a (y::int)) n \<longleftrightarrow> a \<le> n \<and> bit y (n - a)"
  by (simp add: bit_push_bit_iff)

lemma bit_drop_int: "bit (drop_bit a (y::int)) n \<longleftrightarrow> bit y (a + n)"
  by (simp add: bit_drop_bit_eq)

lemmas field_bits = bit_and_7 bit_and_1 bit_and_255 bit_push_int bit_drop_int bit_or_iff

lemma bit_build:
  "bit (build_j1939_id p g s r) n \<longleftrightarrow>
     (if n < 8 then bit s n
      else if n < 25 then bit g (n - 8)
      else if n = 25 then bit r 0
      else n < 29 \<and> bit p (n - 26))"
proof -
  consider "n < 8" | "8 \<le> n" "n < 16" | "16 \<le> n" "n < 24" | "n = 24" | "n = 25"
    | "26 \<le> n" "n < 29" | "29 \<le> n"
    by linarith
  then show ?thesis
  proof cases
    case 3
    then have "8 + (n - 16) = n - 8" by simp
    with 3 show ?thesis
      unfolding build_j1939_id_def Let_def by (simp only: field_bits) auto
  qed (simp_all only: build_j1939_id_def Let_def field_bits, auto)
qed

lemma build_priority: "drop_bit 26 (build_j1939_id p g s r) AND 7 = p AND 7"
  by (rule bit_eqI) (simp only: field_bits bit_build, auto)

lemma build_reserved: "drop_bit 25 (build_j1939_id p g s r) AND 1 = r AND 1"
  by (rule bit_eqI) (simp only: field_bits bit_build, auto)

lemma build_data_page: "drop_bit 24 (build_j1939_id p g s r) AND 1 = drop_bit 16 g AND 1"
  by (rule bit_eqI) (simp only: field_bits bit_build, auto)

lemma build_pdu_format: "drop_bit 16 (build_j1939_id p g s r) AND 255 = drop_bit 8 g AND 255"
  by (rule bit_eqI) (simp only: field_bits bit_build, auto)

lemma build_pdu_specific: "drop_bit 8 (build_j1939_id p g s r) AND 255 = g AND 255"
  by (rule bit_eqI) (simp only: field_bits bit_build, auto)

lemma build_source_address: "build_j1939_id p g s r AND 255 = s AND 255"
  by (rule bit_eqI) (simp only: field_bits bit_build, auto)

section \<open>Reading the returned dictionary\<close>

lemma parse_priority: "parse_j1939_id x ''priority'' = Some (drop_bit 26 x AND 0x7)"
  by (simp add: parse_j1939_id_def Let_def)

lemma parse_reserved: "parse_j1939_id x ''reserved'' = Some (drop_bit 25 x AND 0x1)"
  by (simp add: parse_j1939_id_def Let_def)

lemma parse_data_page: "parse_j1939_id x ''data_page'' = Some (drop_bit 24 x AND 0x1)"
  by (simp add: parse_j1939_id_def Let_def)

lemma parse_pdu_format: "parse_j1939_id x ''pdu_format'' = Some (drop_bit 16 x AND 0xFF)"
  by (simp add: parse_j1939_id_def Let_def)

lemma parse_pdu_specific: "parse_j1939_id x ''pdu_specific'' = Some (drop_bit 8 x AND 0xFF)"
  by (simp add: parse_j1939_id_def Let_def)

lemma parse_source_address: "parse_j1939_id x ''source_address'' = Some (x AND 0xFF)"
  by (simp add: parse_j1939_id_def Let_def)

lemma parse_pgn:
  "parse_j1939_id x ''pgn'' =
     Some (if drop_bit 16 x AND 0xFF < 240
           then push_bit 16 (drop_bit 24 x AND 0x1) OR push_bit 8 (drop_bit 16 x AND 0xFF)
           else (push_bit 16 (drop_bit 24 x AND 0x1) OR push_bit 8 (drop_bit 16 x AND 0xFF))
                  OR (drop_bit 8 x AND 0xFF))"
  by (simp add: parse_j1939_id_def Let_def)

lemmas parse_lookups = parse_priority parse_reserved parse_data_page parse_pdu_format
  parse_pdu_specific parse_source_address

section \<open>The PGN of a built identifier\<close>

lemma and_131071_take_bit: "(k::int) AND 0x1FFFF = take_bit 17 k"
  by (simp add: take_bit_eq_mask mask_eq_exp_minus_1)

lemma bit_and_131071: "bit ((x::int) AND 0x1FFFF) n \<longleftrightarrow> n < 17 \<and> bit x n"
  unfolding and_131071_take_bit by (simp only: bit_take_bit_iff)

lemma pgn_of_fields:
  "(push_bit 16 (drop_bit 16 g AND 0x1) OR push_bit 8 (drop_bit 8 g AND 0xFF)) OR (g AND 0xFF)
     = (g::int) AND 0x1FFFF"
proof (rule bit_eqI)
  fix n :: nat
  consider "n < 8" | "8 \<le> n" "n < 16" | "n = 16" | "17 \<le> n"
    by linarith
  then show "bit ((push_bit 16 (drop_bit 16 g AND 0x1) OR push_bit 8 (drop_bit 8 g AND 0xFF))
                OR (g AND 0xFF)) n = bit (g AND 0x1FFFF) n"
  proof cases
    case 2
    then have "8 + (n - 8) = n" by simp
    with 2 show ?thesis by (simp only: field_bits bit_and_131071) auto
  qed (simp_all only: field_bits bit_and_131071, auto)
qed

lemma parse_build_pgn:
  "parse_j1939_id (build_j1939_id p g s r) ''pgn'' =
     Some (if drop_bit 8 g AND 0xFF < 240
           then push_bit 16 (drop_bit 16 g AND 0x1) OR push_bit 8 (drop_bit 8 g AND 0xFF)
           else g AND 0x1FFFF)"
  by (simp only: parse_pgn build_data_page build_pdu_format build_pdu_specific pgn_of_fields)

section \<open>Identifiers of 29 bits\<close>

lemma reassemble_fields:
  "((((push_bit 26 (drop_bit 26 x AND 0x7) OR push_bit 25 (drop_bit 25 x AND 0x1))
        OR push_bit 24 (drop_bit 24 x AND 0x1)) OR push_bit 16 (drop_bit 16 x AND 0xFF))
        OR push_bit 8 (drop_bit 8 x AND 0xFF)) OR (x AND 0xFF)
     = take_bit 29 (x::int)"
proof (rule bit_eqI)
  fix n :: nat
  consider "n < 8" | "8 \<le> n" "n < 16" | "16 \<le> n" "n < 24" | "n = 24" | "n = 25"
    | "26 \<le> n" "n < 29" | "29 \<le> n"
    by linarith
  then show "bit (((((push_bit 26 (drop_bit 26 x AND 0x7) OR push_bit 25 (drop_bit 25 x AND 0x1))
        OR push_bit 24 (drop_bit 24 x AND 0x1)) OR push_bit 16 (drop_bit 16 x AND 0xFF))
        OR push_bit 8 (drop_bit 8 x AND 0xFF)) OR (x AND 0xFF)) n = bit (take_bit 29 x) n"
    by cases (simp_all only: field_bits bit_take_bit_iff, auto)
qed

lemma bit_mod_29: "bit ((x::int) mod 2 ^ 29) n \<longleftrightarrow> n < 29 \<and> bit x n"
  by (simp only: take_bit_eq_mod [symmetric] bit_take_bit_iff)

lemma mod_priority: "drop_bit 26 ((x::int) mod 2 ^ 29) AND 0x7 = drop_bit 26 x AND 0x7"
  by (rule bit_eqI) (simp only: field_bits bit_mod_29, auto)

lemma mod_reserved: "drop_bit 25 ((x::int) mod 2 ^ 29) AND 0x1 = drop_bit 25 x AND 0x1"
  by (rule bit_eqI) (simp only: field_bits bit_mod_29, auto)

lemma mod_data_page: "drop_bit 24 ((x::int) mod 2 ^ 29) AND 0x1 = drop_bit 24 x AND 0x1"
  by (rule bit_eqI) (simp only: field_bits bit_mod_29, auto)

lemma mod_pdu_format: "drop_bit 16 ((x::int) mod 2 ^ 29) AND 0xFF = drop_bit 16 x AND 0xFF"
  by (rule bit_eqI) (simp only: field_bits bit_mod_29, auto)

lemma mod_pdu_specific: "drop_bit 8 ((x::int) mod 2 ^ 29) AND 0xFF = drop_bit 8 x AND 0xFF"
  by (rule bit_eqI) (simp only: field_bits bit_mod_29, auto)

lemma mod_source_address: "((x::int) mod 2 ^ 29) AND 0xFF = x AND 0xFF"
  by (rule bit_eqI) (simp only: field_bits bit_mod_29, auto)

lemma dom_parse:
  "dom (parse_j1939_id x) =
     {''priority'', ''reserved'', ''data_page'', ''pdu_format'', ''pdu_specific'',
      ''source_address'', ''pgn''}"
  by (auto simp add: parse_j1939_id_def Let_def)

lemma build_29_bits: "take_bit 29 (build_j1939_id p g s r) = build_j1939_id p g s r"
  by (rule bit_eqI) (simp only: bit_take_bit_iff bit_build, auto)

lemma pgn_17_bits:
  "take_bit 17 ((push_bit 16 (d AND 0x1) OR push_bit 8 (f AND 0xFF)) OR (s AND 0xFF))
     = (push_bit 16 (d AND 0x1) OR push_bit 8 (f AND 0xFF)) OR ((s::int) AND 0xFF)"
  by (rule bit_eqI) (simp only: bit_take_bit_iff field_bits, auto)

lemma pgn_17_bits_pdu1:
  "take_bit 17 (push_bit 16 (d AND 0x1) OR push_bit 8 (f AND 0xFF))
     = push_bit 16 (d AND 0x1) OR push_bit 8 ((f::int) AND 0xFF)"
  by (rule bit_eqI) (simp only: bit_take_bit_iff field_bits, auto)

section \<open>Concrete runs\<close>

text \<open>
  The model on arguments outside the intended ranges, and on the two encoding scenarios of the
  specification: the all-ones integer \<open>- 1\<close> has every bit set, so every field is at its
  maximum.
\<close>

lemma parse_minus_one:
  "parse_j1939_id (- 1) =
     [''priority'' \<mapsto> 7, ''reserved'' \<mapsto> 1, ''data_page'' \<mapsto> 1, ''pdu_format'' \<mapsto> 255,
      ''pdu_specific'' \<mapsto> 255, ''source_address'' \<mapsto> 255, ''pgn'' \<mapsto> 0x1FFFF]"
  by (simp add: parse_j1939_id_def Let_def drop_bit_eq_div and_7_take_bit and_1_take_bit
      and_255_take_bit take_bit_eq_mod push_bit_eq_mult)

lemma build_scenarios:
  "build_j1939_id 6 65262 0 0 = 0x18FEEE00"
  "build_j1939_id 0 0x100 5 0 = 0x00010005"
  "build_j1939_id (- 1) (- 1) (- 1) (- 1) = 0x1FFFFFFF"
  by (simp_all add: build_j1939_id_def Let_def drop_bit_eq_div and_7_take_bit and_1_take_bit
      and_255_take_bit take_bit_eq_mod push_bit_eq_mult)

section \<open>Literal scenario\<close>

text \<open>
  C8.  Parsing the identifier \<^verbatim>\<open>0x18FEF100\<close> gives priority 6, reserved 0, data page 0,
  PDU format 254, PDU specific 241, source address 0 and PGN 65265.
\<close>

theorem parse_0x18FEF100:
  "parse_j1939_id 0x18FEF100 =
     [''priority'' \<mapsto> 6, ''reserved'' \<mapsto> 0, ''data_page'' \<mapsto> 0, ''pdu_format'' \<mapsto> 254,
      ''pdu_specific'' \<mapsto> 241, ''source_address'' \<mapsto> 0, ''pgn'' \<mapsto> 65265]"
  by (simp add: parse_j1939_id_def Let_def drop_bit_eq_div and_7_take_bit and_1_take_bit
      and_255_take_bit take_bit_eq_mod push_bit_eq_mult)

section \<open>Encoding followed by decoding\<close>

text \<open>
  C4.  For all integers \<open>priority\<close>, \<open>pgn\<close>, \<open>source_address\<close> and \<open>reserved\<close>, the
  dictionary parsed from the built identifier holds the priority masked to 3 bits, the reserved
  bit masked to 1 bit, the source address masked to 8 bits, bit 16 of \<open>pgn\<close> as the data page
  and bits 8 to 15 of \<open>pgn\<close> as the PDU format.
\<close>

theorem parse_build_fields:
  "parse_j1939_id (build_j1939_id priority pgn source_address reserved) ''priority''
     = Some (priority AND 0x7)
   \<and> parse_j1939_id (build_j1939_id priority pgn source_address reserved) ''reserved''
     = Some (reserved AND 0x1)
   \<and> parse_j1939_id (build_j1939_id priority pgn source_address reserved) ''source_address''
     = Some (source_address AND 0xFF)
   \<and> parse_j1939_id (build_j1939_id priority pgn source_address reserved) ''data_page''
     = Some (drop_bit 16 pgn AND 0x1)
   \<and> parse_j1939_id (build_j1939_id priority pgn source_address reserved) ''pdu_format''
     = Some (drop_bit 8 pgn AND 0xFF)"
  by (simp only: parse_lookups build_priority build_reserved build_data_page build_pdu_format
      build_source_address simp_thms)

section \<open>Truncation of the arguments of the encoder\<close>

text \<open>
  C6.  Building an identifier gives the same result when the priority is first masked to 3
  bits, the source address to 8 bits and the reserved bit to 1 bit: values out of range are
  truncated.
\<close>

theorem build_masking_law:
  "build_j1939_id priority pgn source_address reserved =
   build_j1939_id (priority AND 0x7) pgn (source_address AND 0xFF) (reserved AND 0x1)"
  by (rule bit_eqI) (simp only: bit_build field_bits, auto)

section \<open>The PGN after encoding and decoding\<close>

text \<open>
  C2.  For a priority in 0..7, a source address in 0..255, a reserved bit 0 or 1 and a
  non-negative \<open>pgn\<close> whose bits 8 to 15 are at least 240 (PDU2), parsing the built
  identifier gives the PGN \<open>pgn AND 0x1FFFF\<close>, and data page, PDU format and PDU specific
  are bit 16, bits 8 to 15 and bits 0 to 7 of \<open>pgn\<close>.
\<close>

theorem pdu2_round_trip:
  assumes "0 \<le> priority" "priority \<le> 7"
    and "0 \<le> source_address" "source_address \<le> 255"
    and "reserved = 0 \<or> reserved = 1"
    and "0 \<le> pgn"
    and "240 \<le> drop_bit 8 pgn AND 0xFF"
  shows "parse_j1939_id (build_j1939_id priority pgn source_address reserved) ''pgn''
           = Some (pgn AND 0x1FFFF)
       \<and> parse_j1939_id (build_j1939_id priority pgn source_address reserved) ''data_page''
           = Some (drop_bit 16 pgn AND 0x1)
       \<and> parse_j1939_id (build_j1939_id priority pgn source_address reserved) ''pdu_format''
           = Some (drop_bit 8 pgn AND 0xFF)
       \<and> parse_j1939_id (build_j1939_id priority pgn source_address reserved) ''pdu_specific''
           = Some (pgn AND 0xFF)"
proof -
  from assms(7) have "\<not> drop_bit 8 pgn AND 0xFF < 240" by simp
  then have "parse_j1939_id (build_j1939_id priority pgn source_address reserved) ''pgn''
               = Some (pgn AND 0x1FFFF)"
    by (simp only: parse_build_pgn if_False)
  then show ?thesis
    by (simp only: parse_lookups build_data_page build_pdu_format build_pdu_specific simp_thms)
qed

theorem pdu2_round_trip_witness:
  "0 \<le> (6::int) \<and> (6::int) \<le> 7 \<and> 0 \<le> (0::int) \<and> (0::int) \<le> 255
   \<and> ((0::int) = 0 \<or> (0::int) = 1) \<and> 0 \<le> (65262::int)
   \<and> 240 \<le> drop_bit 8 (65262::int) AND 0xFF
   \<and> parse_j1939_id (build_j1939_id 6 65262 0 0) ''pgn'' = Some 65262
   \<and> parse_j1939_id (build_j1939_id 6 65262 0 0) ''data_page'' = Some 0
   \<and> parse_j1939_id (build_j1939_id 6 65262 0 0) ''pdu_format'' = Some 254
   \<and> parse_j1939_id (build_j1939_id 6 65262 0 0) ''pdu_specific'' = Some 238"
proof -
  have h: "240 \<le> drop_bit 8 (65262::int) AND 0xFF"
    by (simp add: drop_bit_eq_div and_255_take_bit take_bit_eq_mod)
  from pdu2_round_trip [of 6 0 0 65262, OF _ _ _ _ _ _ h] h show ?thesis
    by (simp add: drop_bit_eq_div mask_take_bit and_131071_take_bit take_bit_eq_mod)
qed

text \<open>
  C3.  For every priority, source address, reserved bit and \<open>pgn\<close> whose bits 8 to 15 are
  below 240 (PDU1), parsing the built identifier gives the PGN made of bit 16 and bits 8 to 15
  of \<open>pgn\<close> only, whatever the low byte of \<open>pgn\<close> is.
\<close>

theorem pdu1_pgn_drops_pdu_specific:
  assumes "drop_bit 8 pgn AND 0xFF < 240"
  shows "parse_j1939_id (build_j1939_id priority pgn source_address reserved) ''pgn''
           = Some (push_bit 16 (drop_bit 16 pgn AND 0x1) OR push_bit 8 (drop_bit 8 pgn AND 0xFF))"
  using assms by (simp only: parse_build_pgn if_True)

theorem pdu1_pgn_drops_pdu_specific_witness:
  "drop_bit 8 (0x1234::int) AND 0xFF < 240
   \<and> parse_j1939_id (build_j1939_id 3 0x1234 5 1) ''pgn'' = Some 0x1200"
proof -
  have h: "drop_bit 8 (0x1234::int) AND 0xFF < 240"
    by (simp add: drop_bit_eq_div and_255_take_bit take_bit_eq_mod)
  from pdu1_pgn_drops_pdu_specific [of "0x1234" 3 5 1, OF h] h show ?thesis
    by (simp add: drop_bit_eq_div mask_take_bit take_bit_eq_mod push_bit_eq_mult)
qed

section \<open>The boundary between PDU1 and PDU2\<close>

text \<open>
  C7.  When the PDU format byte of an identifier is exactly 240, the parser takes the PDU2
  branch: the returned PGN is the returned data page shifted by 16, or 240 shifted by 8, or
  the returned PDU specific byte.
\<close>

theorem pdu_format_240_is_pdu2:
  assumes "drop_bit 16 can_id AND 0xFF = 240"
  shows "\<exists>data_page pdu_specific.
           parse_j1939_id can_id ''data_page'' = Some data_page
         \<and> parse_j1939_id can_id ''pdu_specific'' = Some pdu_specific
         \<and> parse_j1939_id can_id ''pgn''
             = Some ((push_bit 16 data_page OR push_bit 8 240) OR pdu_specific)"
  using assms by (simp add: parse_pgn parse_lookups)

theorem pdu_format_240_is_pdu2_witness:
  "drop_bit 16 (0x18F00A05::int) AND 0xFF = 240
   \<and> parse_j1939_id 0x18F00A05 ''data_page'' = Some 0
   \<and> parse_j1939_id 0x18F00A05 ''pdu_specific'' = Some 10
   \<and> parse_j1939_id 0x18F00A05 ''pgn'' = Some 0xF00A"
proof -
  have h: "drop_bit 16 (0x18F00A05::int) AND 0xFF = 240"
    by (simp add: drop_bit_eq_div and_255_take_bit take_bit_eq_mod)
  from pdu_format_240_is_pdu2 [OF h] h show ?thesis
    by (simp add: parse_lookups drop_bit_eq_div mask_take_bit take_bit_eq_mod push_bit_eq_mult)
qed

section \<open>Decoding followed by reassembly\<close>

text \<open>
  C1.  For every identifier \<open>can_id\<close> with \<open>0 \<le> can_id < 2^29\<close>, the six primitive fields of
  the parsed dictionary, shifted to their positions and combined with \<open>OR\<close>, give \<open>can_id\<close>
  back.
\<close>

theorem parse_fields_recombine:
  assumes "0 \<le> can_id" and "can_id < 2 ^ 29"
  shows "\<exists>priority reserved data_page pdu_format pdu_specific source_address.
           parse_j1939_id can_id ''priority'' = Some priority
         \<and> parse_j1939_id can_id ''reserved'' = Some reserved
         \<and> parse_j1939_id can_id ''data_page'' = Some data_page
         \<and> parse_j1939_id can_id ''pdu_format'' = Some pdu_format
         \<and> parse_j1939_id can_id ''pdu_specific'' = Some pdu_specific
         \<and> parse_j1939_id can_id ''source_address'' = Some source_address
         \<and> ((((push_bit 26 priority OR push_bit 25 reserved) OR push_bit 24 data_page)
                OR push_bit 16 pdu_format) OR push_bit 8 pdu_specific) OR source_address
             = can_id"
proof -
  from assms have "take_bit 29 can_id = can_id"
    by (simp add: take_bit_int_eq_self)
  then have "((((push_bit 26 (drop_bit 26 can_id AND 0x7)
             OR push_bit 25 (drop_bit 25 can_id AND 0x1))
             OR push_bit 24 (drop_bit 24 can_id AND 0x1))
             OR push_bit 16 (drop_bit 16 can_id AND 0xFF))
             OR push_bit 8 (drop_bit 8 can_id AND 0xFF)) OR (can_id AND 0xFF) = can_id"
    by (simp only: reassemble_fields)
  then show ?thesis
    by (simp only: parse_lookups option.inject simp_thms ex_simps)
qed

theorem parse_fields_recombine_witness:
  "0 \<le> (0x18FEF100::int) \<and> (0x18FEF100::int) < 2 ^ 29
   \<and> (\<exists>priority reserved data_page pdu_format pdu_specific source_address.
           parse_j1939_id 0x18FEF100 ''priority'' = Some priority
         \<and> parse_j1939_id 0x18FEF100 ''reserved'' = Some reserved
         \<and> parse_j1939_id 0x18FEF100 ''data_page'' = Some data_page
         \<and> parse_j1939_id 0x18FEF100 ''pdu_format'' = Some pdu_format
         \<and> parse_j1939_id 0x18FEF100 ''pdu_specific'' = Some pdu_specific
         \<and> parse_j1939_id 0x18FEF100 ''source_address'' = Some source_address
         \<and> ((((push_bit 26 priority OR push_bit 25 reserved) OR push_bit 24 data_page)
                OR push_bit 16 pdu_format) OR push_bit 8 pdu_specific) OR source_address
             = 0x18FEF100)"
proof -
  have h: "0 \<le> (0x18FEF100::int)" "(0x18FEF100::int) < 2 ^ 29" by simp_all
  from parse_fields_recombine [OF h] h show ?thesis by blast
qed

section \<open>Totality and range\<close>

text \<open>
  C5.  The parser has no failure path: for every integer, negative ones and ones of more than
  29 bits included, it returns a dictionary with all seven keys, and that dictionary is the one
  returned for \<open>can_id mod 2^29\<close>, so bits above bit 28 affect no field.
\<close>

theorem parse_ignores_high_bits:
  "dom (parse_j1939_id can_id) =
     {''priority'', ''reserved'', ''data_page'', ''pdu_format'', ''pdu_specific'',
      ''source_address'', ''pgn''}
   \<and> parse_j1939_id can_id = parse_j1939_id (can_id mod 2 ^ 29)"
  unfolding parse_j1939_id_def [of "can_id mod 2 ^ 29"]
  by (simp only: dom_parse mod_priority mod_reserved mod_data_page mod_pdu_format
      mod_pdu_specific mod_source_address parse_j1939_id_def [symmetric] simp_thms)

text \<open>
  C9.  For all integer arguments, negative ones and ones wider than their fields included,
  the built identifier lies between 0 and \<open>0x1FFFFFFF\<close>.
\<close>

theorem build_is_29_bit:
  "0 \<le> build_j1939_id priority pgn source_address reserved
   \<and> build_j1939_id priority pgn source_address reserved \<le> 0x1FFFFFFF"
proof -
  have "0 \<le> take_bit 29 (build_j1939_id priority pgn source_address reserved)"
    by simp
  moreover have "take_bit 29 (build_j1939_id priority pgn source_address reserved) < 2 ^ 29"
    by (rule take_bit_int_less_exp)
  ultimately show ?thesis
    by (simp add: build_29_bits)
qed

text \<open>
  C10.  For every integer \<open>can_id\<close>, the PGN in the parsed dictionary is a non-negative
  integer of at most \<open>0x1FFFF\<close>: it fits in 17 bits.
\<close>

theorem parse_pgn_is_17_bit:
  "\<exists>pgn. parse_j1939_id can_id ''pgn'' = Some pgn \<and> 0 \<le> pgn \<and> pgn \<le> 0x1FFFF"
proof -
  let ?a = "push_bit 16 (drop_bit 24 can_id AND 0x1) OR push_bit 8 (drop_bit 16 can_id AND 0xFF)"
  let ?b = "?a OR (drop_bit 8 can_id AND 0xFF)"
  have "0 \<le> take_bit 17 ?a" "take_bit 17 ?a < 2 ^ 17" "0 \<le> take_bit 17 ?b"
    "take_bit 17 ?b < 2 ^ 17"
    by (simp_all only: take_bit_nonnegative take_bit_int_less_exp)
  then have "0 \<le> ?a \<and> ?a \<le> 0x1FFFF" "0 \<le> ?b \<and> ?b \<le> 0x1FFFF"
    by (simp_all only: pgn_17_bits pgn_17_bits_pdu1) simp_all
  then show ?thesis
    by (simp only: parse_pgn split: if_split) blast
qed

end
